theory Spec2Isabelle
  imports Complex_Main
begin

section \<open>Double-precision values\<close>

text \<open>
  The integrand is written with C++ \<^verbatim>\<open>double\<close>. A finite double is modelled by the real
  number it denotes and every operation on finite doubles by the exact real operation:
  rounding, overflow and underflow are not modelled. The IEEE special values are
  modelled, because the control flow of the integrand depends on them: the square root
  of a negative number and \<^verbatim>\<open>0/0\<close> are NaN, a nonzero value divided by zero is an
  infinity, and every comparison with NaN is false. Signed zeros are not modelled; the
  zero divisors that occur in the integrand (a difference \<^verbatim>\<open>x - x\<close>, a square root, an
  absolute value) are all \<^verbatim>\<open>+0\<close>, so a division by zero takes the sign of its numerator.
\<close>

datatype dbl = Fin real | PInf | NInf | NaN

instantiation dbl :: "{zero, one, plus, minus, uminus, times, divide, inverse, abs, ord}"
begin

definition zero_dbl :: dbl where
  "zero_dbl = Fin 0"

definition one_dbl :: dbl where
  "one_dbl = Fin 1"

fun plus_dbl :: "dbl \<Rightarrow> dbl \<Rightarrow> dbl" where
  "plus_dbl (Fin a) (Fin b) = Fin (a + b)"
| "plus_dbl NaN y = NaN"
| "plus_dbl x NaN = NaN"
| "plus_dbl PInf NInf = NaN"
| "plus_dbl NInf PInf = NaN"
| "plus_dbl PInf y = PInf"
| "plus_dbl x PInf = PInf"
| "plus_dbl NInf y = NInf"
| "plus_dbl x NInf = NInf"

fun uminus_dbl :: "dbl \<Rightarrow> dbl" where
  "uminus_dbl (Fin a) = Fin (- a)"
| "uminus_dbl PInf = NInf"
| "uminus_dbl NInf = PInf"
| "uminus_dbl NaN = NaN"

definition minus_dbl :: "dbl \<Rightarrow> dbl \<Rightarrow> dbl" where
  "minus_dbl (x::dbl) y = x + (- y)"

fun times_dbl :: "dbl \<Rightarrow> dbl \<Rightarrow> dbl" where
  "times_dbl (Fin a) (Fin b) = Fin (a * b)"
| "times_dbl NaN y = NaN"
| "times_dbl x NaN = NaN"
| "times_dbl (Fin a) PInf = (if a = 0 then NaN else if 0 < a then PInf else NInf)"
| "times_dbl (Fin a) NInf = (if a = 0 then NaN else if 0 < a then NInf else PInf)"
| "times_dbl PInf (Fin b) = (if b = 0 then NaN else if 0 < b then PInf else NInf)"
| "times_dbl NInf (Fin b) = (if b = 0 then NaN else if 0 < b then NInf else PInf)"
| "times_dbl PInf PInf = PInf"
| "times_dbl PInf NInf = NInf"
| "times_dbl NInf PInf = NInf"
| "times_dbl NInf NInf = PInf"

fun divide_dbl :: "dbl \<Rightarrow> dbl \<Rightarrow> dbl" where
  "divide_dbl (Fin a) (Fin b) =
     (if b \<noteq> 0 then Fin (a / b)
      else if a = 0 then NaN else if 0 < a then PInf else NInf)"
| "divide_dbl NaN y = NaN"
| "divide_dbl x NaN = NaN"
| "divide_dbl (Fin a) PInf = Fin 0"
| "divide_dbl (Fin a) NInf = Fin 0"
| "divide_dbl PInf (Fin b) = (if 0 \<le> b then PInf else NInf)"
| "divide_dbl NInf (Fin b) = (if 0 \<le> b then NInf else PInf)"
| "divide_dbl PInf PInf = NaN"
| "divide_dbl PInf NInf = NaN"
| "divide_dbl NInf PInf = NaN"
| "divide_dbl NInf NInf = NaN"

definition inverse_dbl :: "dbl \<Rightarrow> dbl" where
  "inverse_dbl (x::dbl) = divide (Fin 1) x"

fun abs_dbl :: "dbl \<Rightarrow> dbl" where
  "abs_dbl (Fin a) = Fin \<bar>a\<bar>"
| "abs_dbl PInf = PInf"
| "abs_dbl NInf = PInf"
| "abs_dbl NaN = NaN"

fun less_dbl :: "dbl \<Rightarrow> dbl \<Rightarrow> bool" where
  "less_dbl (Fin a) (Fin b) = (a < b)"
| "less_dbl NaN y = False"
| "less_dbl x NaN = False"
| "less_dbl PInf y = False"
| "less_dbl x NInf = False"
| "less_dbl x PInf = True"
| "less_dbl NInf y = True"

fun less_eq_dbl :: "dbl \<Rightarrow> dbl \<Rightarrow> bool" where
  "less_eq_dbl (Fin a) (Fin b) = (a \<le> b)"
| "less_eq_dbl NaN y = False"
| "less_eq_dbl x NaN = False"
| "less_eq_dbl NInf y = True"
| "less_eq_dbl x PInf = True"
| "less_eq_dbl PInf y = False"
| "less_eq_dbl x NInf = False"

instance ..

end

text \<open>\<^verbatim>\<open>std::sqrt\<close>, \<^verbatim>\<open>std::sin\<close>, \<^verbatim>\<open>std::cos\<close> and \<^verbatim>\<open>std::acos\<close>.\<close>

fun dsqrt :: "dbl \<Rightarrow> dbl" where
  "dsqrt (Fin a) = (if a < 0 then NaN else Fin (sqrt a))"
| "dsqrt PInf = PInf"
| "dsqrt NInf = NaN"
| "dsqrt NaN = NaN"

fun dsin :: "dbl \<Rightarrow> dbl" where
  "dsin (Fin a) = Fin (sin a)"
| "dsin x = NaN"

fun dcos :: "dbl \<Rightarrow> dbl" where
  "dcos (Fin a) = Fin (cos a)"
| "dcos x = NaN"

fun dacos :: "dbl \<Rightarrow> dbl" where
  "dacos (Fin a) = (if - 1 \<le> a \<and> a \<le> 1 then Fin (arccos a) else NaN)"
| "dacos x = NaN"

section \<open>Four-vectors\<close>

text \<open>
  Modelled from the spec: \<^verbatim>\<open>FourVector.h\<close> is not among the sources. A four-vector has
  four double components, component 0 being the energy; \<^verbatim>\<open>+\<close>, \<^verbatim>\<open>-\<close> and the product with
  a scalar act component-wise, and the product of two four-vectors is the Minkowski
  product in the metric \<^verbatim>\<open>(+1 -1 -1 -1)\<close> that the integrand's comments name.
\<close>

record FourVector =
  fv0 :: dbl
  fv1 :: dbl
  fv2 :: dbl
  fv3 :: dbl

text \<open>Modelled from the spec: the constructor \<^verbatim>\<open>FourVector(p0, p1, p2, p3)\<close>.\<close>

definition mkFourVector :: "dbl \<Rightarrow> dbl \<Rightarrow> dbl \<Rightarrow> dbl \<Rightarrow> FourVector" where
  "mkFourVector a b c d = \<lparr>fv0 = a, fv1 = b, fv2 = c, fv3 = d\<rparr>"

text \<open>Modelled from the spec: \<^verbatim>\<open>operator+\<close> and \<^verbatim>\<open>operator-\<close> of four-vectors.\<close>

definition fvAdd :: "FourVector \<Rightarrow> FourVector \<Rightarrow> FourVector" where
  "fvAdd P R = \<lparr>fv0 = fv0 P + fv0 R, fv1 = fv1 P + fv1 R, fv2 = fv2 P + fv2 R, fv3 = fv3 P + fv3 R\<rparr>"

definition fvSub :: "FourVector \<Rightarrow> FourVector \<Rightarrow> FourVector" where
  "fvSub P R = \<lparr>fv0 = fv0 P - fv0 R, fv1 = fv1 P - fv1 R, fv2 = fv2 P - fv2 R, fv3 = fv3 P - fv3 R\<rparr>"

text \<open>Modelled from the spec: the product of a double with a four-vector.\<close>

definition fvScale :: "dbl \<Rightarrow> FourVector \<Rightarrow> FourVector" where
  "fvScale c P = \<lparr>fv0 = c * fv0 P, fv1 = c * fv1 P, fv2 = c * fv2 P, fv3 = c * fv3 P\<rparr>"

text \<open>Modelled from the spec: the Minkowski product \<^verbatim>\<open>operator*\<close> of two four-vectors.\<close>

definition fvDot :: "FourVector \<Rightarrow> FourVector \<Rightarrow> dbl" where
  "fvDot P R = fv0 P * fv0 R - fv1 P * fv1 R - fv2 P * fv2 R - fv3 P * fv3 R"

text \<open>Modelled from the spec: \<^verbatim>\<open>FourVector::energy()\<close>, the component 0.\<close>

definition energy :: "FourVector \<Rightarrow> dbl" where
  "energy P = fv0 P"

section \<open>The collision integral object\<close>

text \<open>\<^verbatim>\<open>std::array<double, 4>\<close>, read at the constant indices 0 to 3.\<close>

record Array4 =
  at0 :: dbl
  at1 :: dbl
  at2 :: dbl
  at3 :: dbl

text \<open>
  Modelled from the spec: \<^verbatim>\<open>CollElem.h\<close> and the polynomial basis are not among the
  sources. A collision element holds four particles, each with its equilibrium flag and
  its \<^verbatim>\<open>deltaF\<close>, and whatever else its \<^verbatim>\<open>evaluate\<close> reads (the matrix element, of
  type \<open>'m\<close>). The members of \<^verbatim>\<open>CollisionIntegral4\<close> that \<^verbatim>\<open>CollisionIntegral.cpp\<close> uses
  and does not define are fields of the object: the grid and momentum maps and \<^verbatim>\<open>TmTn\<close>
  of \<^verbatim>\<open>polynomialBasis\<close>, \<^verbatim>\<open>CollElem<4>::evaluate\<close>, and the constants
  \<^verbatim>\<open>massSquaredLowerBound\<close> and \<^verbatim>\<open>maxIntegrationMomentum\<close>.
\<close>

record Particle =
  bInEquilibrium :: bool
  deltaF :: dbl

record 'm CollElem =
  particles :: "Particle list"
  matrixElement :: 'm

record 'm CollisionIntegral4 =
  rhoZGrid :: "int \<Rightarrow> dbl"
  rhoParGrid :: "int \<Rightarrow> dbl"
  rhoZ_to_pZ :: "dbl \<Rightarrow> dbl"
  rhoPar_to_pPar :: "dbl \<Rightarrow> dbl"
  TmTn :: "int \<Rightarrow> int \<Rightarrow> FourVector \<Rightarrow> dbl"
  collisionElements :: "'m CollElem list"
  evaluateCollElem :: "'m CollElem \<Rightarrow> FourVector list \<Rightarrow> dbl"
  massSquaredLowerBound :: dbl
  maxIntegrationMomentum :: dbl

section \<open>\<^verbatim>\<open>CollisionIntegral4::calculateIntegrand\<close>\<close>

text \<open>
  The values the function computes before it solves for \<open>p3\<close> (lines 99 to 140): the
  three momentum directions, the energies \<open>E1\<close>, \<open>E2\<close>, and \<open>kappa\<close>, \<open>eps\<close>, \<open>delta\<close>.
  The expression \<^verbatim>\<open>-1.0 * FV1dummy*FV2dummy\<close> is \<^verbatim>\<open>(-1.0 * FV1dummy) * FV2dummy\<close>.
\<close>

record Kin =
  FV1dummy :: FourVector
  FV2dummy :: FourVector
  FV3Hat :: FourVector
  E1 :: dbl
  E2 :: dbl
  kappa :: dbl
  eps :: dbl
  delta :: dbl

definition kinematicVariables ::
  "'m CollisionIntegral4 \<Rightarrow> int \<Rightarrow> int \<Rightarrow> dbl \<Rightarrow> dbl \<Rightarrow> dbl \<Rightarrow> dbl \<Rightarrow> dbl \<Rightarrow> Array4 \<Rightarrow> Kin" where
  "kinematicVariables self j k p2 phi2 phi3 cosTheta2 cosTheta3 massSquared =
     (let sinTheta2 = dsin (dacos cosTheta2);
          sinTheta3 = dsin (dacos cosTheta3);
          sinPhi2 = dsin phi2;
          sinPhi3 = dsin phi3;
          cosPhi2 = dcos phi2;
          cosPhi3 = dcos phi3;
          rhoZ1 = rhoZGrid self j;
          rhoPar1 = rhoParGrid self k;
          pZ1 = rhoZ_to_pZ self rhoZ1;
          pPar1 = rhoPar_to_pPar self rhoPar1;
          p1 = dsqrt (pZ1 * pZ1 + pPar1 * pPar1);
          FV1d = mkFourVector (Fin 0) (Fin 0) pPar1 pZ1;
          FV2d = mkFourVector (Fin 0) (p2 * sinTheta2 * cosPhi2) (p2 * sinTheta2 * sinPhi2)
                   (p2 * cosTheta2);
          FV3H = mkFourVector (Fin 0) (sinTheta3 * cosPhi3) (sinTheta3 * sinPhi3) cosTheta3;
          p1p2Dot = fvDot (fvScale (Fin (- 1)) FV1d) FV2d;
          p1p3HatDot = fvDot (fvScale (Fin (- 1)) FV1d) FV3H;
          p2p3HatDot = fvDot (fvScale (Fin (- 1)) FV2d) FV3H;
          E1v = dsqrt (p1 * p1 + at0 massSquared);
          E2v = dsqrt (p2 * p2 + at1 massSquared);
          Q = at0 massSquared + at1 massSquared + at2 massSquared - at3 massSquared;
          kappav = Q + Fin 2 * (E1v * E2v - p1p2Dot);
          epsv = Fin 2 * (E1v + E2v);
          deltav = Fin 2 * (p1p3HatDot + p2p3HatDot)
      in \<lparr>FV1dummy = FV1d, FV2dummy = FV2d, FV3Hat = FV3H, E1 = E1v, E2 = E2v,
          kappa = kappav, eps = epsv, delta = deltav\<rparr>)"

text \<open>The lambda \<^verbatim>\<open>funcG\<close> (lines 142 to 145).\<close>

definition funcG :: "Kin \<Rightarrow> Array4 \<Rightarrow> dbl \<Rightarrow> dbl" where
  "funcG K massSquared p3 =
     (let m3sq = at2 massSquared
      in kappa K + delta K * p3 - eps K * dsqrt (p3 * p3 + m3sq))"

text \<open>
  The roots of the quadratic with coefficients \<open>A\<close>, \<open>B\<close>, \<open>C\<close> (lines 152 to 154), and
  the coefficients the function gives it (lines 148 to 150).
\<close>

definition quadraticRoots :: "dbl \<Rightarrow> dbl \<Rightarrow> dbl \<Rightarrow> dbl \<times> dbl" where
  "quadraticRoots A B C =
     (let discriminant = B * B - Fin 4 * A * C;
          r1 = Fin (1 / 2) * (- B - dsqrt discriminant) / A;
          r2 = Fin (1 / 2) * (- B + dsqrt discriminant) / A
      in (r1, r2))"

record Quadratic =
  coeffA :: dbl
  coeffB :: dbl
  coeffC :: dbl
  root1 :: dbl
  root2 :: dbl

definition solveQuadratic :: "Kin \<Rightarrow> Quadratic" where
  "solveQuadratic K =
     (let A = delta K * delta K - eps K * eps K;
          B = Fin 2 * kappa K * delta K;
          C = kappa K * kappa K;
          (r1, r2) = quadraticRoots A B C
      in \<lparr>coeffA = A, coeffB = B, coeffC = C, root1 = r1, root2 = r2\<rparr>)"

text \<open>The vector \<^verbatim>\<open>rootp3\<close> (lines 162 to 166).\<close>

definition rootp3 :: "Quadratic \<Rightarrow> dbl list" where
  "rootp3 q =
     (if root1 q \<ge> Fin 0 then [root1 q] else []) @ (if root2 q \<ge> Fin 0 then [root2 q] else [])"

text \<open>What the function writes to \<^verbatim>\<open>std::cerr\<close>.\<close>

datatype Message = InvalidRoot | NegativeEnergyE4 dbl

text \<open>The four momenta fixed for one root of energy \<open>E3\<close> (lines 181 to 190).\<close>

definition fourMomenta :: "Kin \<Rightarrow> dbl \<Rightarrow> dbl \<Rightarrow> FourVector list" where
  "fourMomenta K E3 p3 =
     (let FV1 = (FV1dummy K)\<lparr>fv0 := E1 K\<rparr>;
          FV2 = (FV2dummy K)\<lparr>fv0 := E2 K\<rparr>;
          FV3 = (fvScale p3 (FV3Hat K))\<lparr>fv0 := E3\<rparr>;
          FV4 = fvSub (fvAdd FV1 FV2) FV3
      in [FV1, FV2, FV3, FV4])"

text \<open>
  The loop over the collision elements (lines 199 to 216). Each element is a copy; the
  \<^verbatim>\<open>deltaF\<close> of each of its four particles that is not in equilibrium is set from the
  momentum of the same index.
\<close>

definition setDeltaFs ::
  "'m CollisionIntegral4 \<Rightarrow> int \<Rightarrow> int \<Rightarrow> FourVector list \<Rightarrow> 'm CollElem \<Rightarrow> 'm CollElem" where
  "setDeltaFs self m n fvs collElem =
     collElem\<lparr>particles :=
       map2 (\<lambda>p P. if \<not> bInEquilibrium p then p\<lparr>deltaF := TmTn self m n P\<rparr> else p)
         (particles collElem) fvs\<rparr>"

fun collElemLoop ::
  "'m CollisionIntegral4 \<Rightarrow> int \<Rightarrow> int \<Rightarrow> FourVector list \<Rightarrow> 'm CollElem list \<Rightarrow> dbl \<Rightarrow> dbl" where
  "collElemLoop self m n fvs [] integrand = integrand"
| "collElemLoop self m n fvs (collElem # rest) integrand =
     collElemLoop self m n fvs rest
       (integrand + evaluateCollElem self (setDeltaFs self m n fvs collElem) fvs)"

text \<open>
  The body of the loop over \<^verbatim>\<open>rootp3\<close> (lines 172 to 236) for one root: the messages it
  writes, and the value it adds to \<^verbatim>\<open>fullIntegrand\<close>, or \<open>None\<close> when it leaves the
  iteration by \<^verbatim>\<open>continue\<close>. \<^verbatim>\<open>kinPrefac\<close> is computed as in the source, which does
  not use it afterwards.
\<close>

definition rootBody ::
  "'m CollisionIntegral4 \<Rightarrow> int \<Rightarrow> int \<Rightarrow> dbl \<Rightarrow> Array4 \<Rightarrow> Kin \<Rightarrow> dbl \<Rightarrow> Message list \<times> dbl option" where
  "rootBody self m n p2 massSquared K p3 =
     (let warn = (if \<bar>funcG K massSquared p3\<bar> > Fin (1 / 10 ^ 8) then [InvalidRoot] else []);
          E3 = dsqrt (p3 * p3 + at2 massSquared);
          fvs = fourMomenta K E3 p3;
          FV4 = fvs ! 3
      in if energy FV4 < Fin 0 then (warn @ [NegativeEnergyE4 (energy FV4)], None)
         else
           (let integrand = collElemLoop self m n fvs (collisionElements self) (Fin 0);
                kinPrefac = Fin 1;
                kinPrefac = (if \<bar>at1 massSquared\<bar> < massSquaredLowerBound self
                             then kinPrefac * p2 else kinPrefac * (p2 * p2 / E2 K));
                kinPrefac = (if \<bar>at2 massSquared\<bar> < massSquaredLowerBound self
                             then kinPrefac * p3 else kinPrefac * (p3 * p3 / E3));
                gDer = (if \<bar>at2 massSquared\<bar> < massSquaredLowerBound self
                        then delta K - eps K else delta K - eps K * p3 / E3);
                integrand = integrand / \<bar>gDer\<bar>
            in (warn, Some integrand)))"

fun rootLoop ::
  "(dbl \<Rightarrow> Message list \<times> dbl option) \<Rightarrow> dbl list \<Rightarrow> dbl \<times> Message list \<Rightarrow> dbl \<times> Message list" where
  "rootLoop body [] acc = acc"
| "rootLoop body (p3 # rest) (fullIntegrand, cerr) =
     (case body p3 of
        (msgs, None) \<Rightarrow> rootLoop body rest (fullIntegrand, cerr @ msgs)
      | (msgs, Some integrand) \<Rightarrow> rootLoop body rest (fullIntegrand + integrand, cerr @ msgs))"

text \<open>The whole function: its return value and what it wrote to \<^verbatim>\<open>std::cerr\<close>.\<close>

definition calculateIntegrand ::
  "'m CollisionIntegral4 \<Rightarrow> int \<Rightarrow> int \<Rightarrow> int \<Rightarrow> int \<Rightarrow> dbl \<Rightarrow> dbl \<Rightarrow> dbl \<Rightarrow> dbl \<Rightarrow> dbl \<Rightarrow> Array4
     \<Rightarrow> dbl \<times> Message list" where
  "calculateIntegrand self m n j k p2 phi2 phi3 cosTheta2 cosTheta3 massSquared =
     (let K = kinematicVariables self j k p2 phi2 phi3 cosTheta2 cosTheta3 massSquared;
          q = solveQuadratic K;
          (fullIntegrand, cerr) =
             rootLoop (rootBody self m n p2 massSquared K) (rootp3 q) (Fin 0, []);
          PI = Fin pi;
          pi2Pow5 = (Fin 2 * PI) * (Fin 2 * PI) * (Fin 2 * PI) * (Fin 2 * PI) * (Fin 2 * PI)
      in (fullIntegrand / pi2Pow5 / Fin 8, cerr))"

section \<open>\<^verbatim>\<open>CollisionIntegral4::evaluate\<close>\<close>

text \<open>
  \<^verbatim>\<open>gsl_monte_vegas_integrate\<close> belongs to the GSL and is a parameter of the model: from
  the integrand, the limits, the number of calls and the state (the random number
  generator and the Vegas grid) it gives the next state and the two estimates it writes
  to \<^verbatim>\<open>mean\<close> and \<^verbatim>\<open>error\<close>.
\<close>

type_synonym 'st vegas =
  "(dbl list \<Rightarrow> dbl) \<Rightarrow> dbl list \<Rightarrow> dbl list \<Rightarrow> nat \<Rightarrow> 'st \<Rightarrow> 'st \<times> dbl \<times> dbl"

text \<open>
  \<^verbatim>\<open>gslWrapper::integrandWrapper\<close> (lines 25 to 40). The GSL calls it with \<^verbatim>\<open>dim = 5\<close>
  values. What the integrand writes to \<^verbatim>\<open>std::cerr\<close> is not part of the value.
\<close>

definition integrandWrapper ::
  "'m CollisionIntegral4 \<Rightarrow> int \<Rightarrow> int \<Rightarrow> int \<Rightarrow> int \<Rightarrow> Array4 \<Rightarrow> dbl list \<Rightarrow> dbl" where
  "integrandWrapper self m n j k msq intVars =
     (let p2 = intVars ! 0;
          phi2 = intVars ! 1;
          phi3 = intVars ! 2;
          cosTheta2 = intVars ! 3;
          cosTheta3 = intVars ! 4
      in fst (calculateIntegrand self m n j k p2 phi2 phi3 cosTheta2 cosTheta3 msq))"

text \<open>
  The two integration runs of \<^verbatim>\<open>evaluate\<close> (lines 44 to 82), with the state they leave,
  \<^verbatim>\<open>mean\<close> and \<^verbatim>\<open>error\<close>. \<open>st0\<close> is the state after \<^verbatim>\<open>gsl_rng_alloc\<close> and
  \<^verbatim>\<open>gsl_monte_vegas_alloc\<close>. The argument \<^verbatim>\<open>0.2*calls\<close> is a double that the call converts
  to \<^verbatim>\<open>size_t\<close>, which truncates.
\<close>

definition evaluateRuns ::
  "'st vegas \<Rightarrow> 'st \<Rightarrow> 'm CollisionIntegral4 \<Rightarrow> int \<Rightarrow> int \<Rightarrow> int \<Rightarrow> int \<Rightarrow> Array4 \<Rightarrow> 'st \<times> dbl \<times> dbl" where
  "evaluateRuns gsl_monte_vegas_integrate st0 self m n j k massSquare =
     (let integralLowerLimits = [Fin 0, Fin 0, Fin 0, Fin (- 1), Fin (- 1)];
          integralUpperLimits =
            [maxIntegrationMomentum self, Fin 2 * Fin pi, Fin 2 * Fin pi, Fin 1, Fin 1];
          G = integrandWrapper self m n j k massSquare;
          calls = (100000 :: nat);
          mean = Fin 0;
          error = Fin 0;
          (st1, mean, error) =
            gsl_monte_vegas_integrate G integralLowerLimits integralUpperLimits
              (nat \<lfloor>(2 / 10) * real calls\<rfloor>) st0;
          (st2, mean, error) =
            gsl_monte_vegas_integrate G integralLowerLimits integralUpperLimits calls st1
      in (st2, mean, error))"

text \<open>\<^verbatim>\<open>evaluate\<close> frees the state and returns the array \<^verbatim>\<open>{mean, error}\<close> (lines 84 to 88).\<close>

definition evaluate ::
  "'st vegas \<Rightarrow> 'st \<Rightarrow> 'm CollisionIntegral4 \<Rightarrow> int \<Rightarrow> int \<Rightarrow> int \<Rightarrow> int \<Rightarrow> Array4 \<Rightarrow> dbl \<times> dbl" where
  "evaluate gsl_monte_vegas_integrate st0 self m n j k massSquare =
     (let (st, mean, error) = evaluateRuns gsl_monte_vegas_integrate st0 self m n j k massSquare
      in (mean, error))"

section \<open>\<^verbatim>\<open>CollisionTensor\<close>\<close>

text \<open>
  Modelled from the spec: \<^verbatim>\<open>CollisionTensor.h\<close> declares \<^verbatim>\<open>updateParticleMasses\<close> and
  \<^verbatim>\<open>setMatrixElementFile\<close>; their bodies, \<^verbatim>\<open>ParticleSpecies.h\<close> and the file system are
  not among the sources. The tensor owns the list of registered particles and the path
  of the matrix element file, and knows whether a grid evaluation is in progress. A
  \<^verbatim>\<open>std::map<std::string, double>\<close> is an association list. An operation that fails
  returns one of the error kinds the specification lists.
\<close>

datatype error =
    UnknownSymbol
  | DuplicateParticle
  | UnregisteredParticle
  | MatrixElementParseError
  | FileNotFound
  | IntegrationDidNotConverge
  | InvalidGridPoint
  | BusyTensor
  | Cancelled
  | IOError

record ParticleSpecies =
  particleName :: string
  msqVacuum :: dbl
  msqThermal :: dbl

record CollisionTensor =
  tensorParticles :: "ParticleSpecies list"
  matrixElementFile :: string
  evaluationInProgress :: bool





text \<open>
  Modelled from the spec: \<^verbatim>\<open>setMatrixElementFile\<close> records the path and returns false
  if the file is absent, true otherwise. \<open>fileExists\<close> is the file system.
\<close>

definition setMatrixElementFile ::
  "(string \<Rightarrow> bool) \<Rightarrow> CollisionTensor \<Rightarrow> string \<Rightarrow> error + bool \<times> CollisionTensor" where
  "setMatrixElementFile fileExists t filePath =
     (let t' = t\<lparr>matrixElementFile := filePath\<rparr>
      in if \<not> fileExists filePath then Inr (False, t') else Inr (True, t'))"

section \<open>Notions used in the statements\<close>

text \<open>
  The energy \<open>E4 = E1 + E2 - E3\<close> of the fourth particle at a root, the derivative
  \<^verbatim>\<open>gDer\<close> of lines 228 to 230, and the sum of the collision elements at a set of momenta.
\<close>

definition energyE4 :: "Kin \<Rightarrow> Array4 \<Rightarrow> dbl \<Rightarrow> dbl" where
  "energyE4 K massSquared p3 = E1 K + E2 K - dsqrt (p3 * p3 + at2 massSquared)"

definition gDerivative :: "'m CollisionIntegral4 \<Rightarrow> Kin \<Rightarrow> Array4 \<Rightarrow> dbl \<Rightarrow> dbl" where
  "gDerivative self K massSquared p3 =
     (if \<bar>at2 massSquared\<bar> < massSquaredLowerBound self then delta K - eps K
      else delta K - eps K * p3 / dsqrt (p3 * p3 + at2 massSquared))"

definition elementSum :: "'m CollisionIntegral4 \<Rightarrow> int \<Rightarrow> int \<Rightarrow> FourVector list \<Rightarrow> dbl" where
  "elementSum self m n fvs =
     foldl (+) (Fin 0)
       (map (\<lambda>collElem. evaluateCollElem self (setDeltaFs self m n fvs collElem) fvs)
          (collisionElements self))"

text \<open>
  A wrapper of the integrator that records the number of calls of each run, to observe
  the runs \<^verbatim>\<open>evaluate\<close> makes.
\<close>

definition logCalls :: "'st vegas \<Rightarrow> ('st \<times> nat list) vegas" where
  "logCalls gsl_monte_vegas_integrate G xl xu calls st =
     (case gsl_monte_vegas_integrate G xl xu calls (fst st) of
        (st', mean, error) \<Rightarrow> ((st', snd st @ [calls]), mean, error))"

section \<open>The specification's formulas\<close>

text \<open>
  The constant term of the quadratic as the specification writes it,
  \<open>C = kappa\<^sup>2 - eps\<^sup>2 m3\<^sup>2\<close>, and its residual test
  \<open>|g(p3)| \<le> tol * max(1, |kappa|)\<close>.
\<close>

definition specCoeffC :: "Kin \<Rightarrow> Array4 \<Rightarrow> dbl" where
  "specCoeffC K massSquared = kappa K * kappa K - eps K * eps K * at2 massSquared"

definition specResidualOk :: "real \<Rightarrow> Kin \<Rightarrow> Array4 \<Rightarrow> dbl \<Rightarrow> bool" where
  "specResidualOk tol K massSquared p3 =
     (\<bar>funcG K massSquared p3\<bar> \<le> Fin tol * (if Fin 1 < \<bar>kappa K\<bar> then \<bar>kappa K\<bar> else Fin 1))"

text \<open>
  The prefactor as the specification writes it: \<open>kappa(p2, m2\<^sup>2) * kappa(p3, m3\<^sup>2) * 1/|g'(p3)|\<close>
  with \<open>kappa(p, m\<^sup>2) = p\<close> if \<open>m\<^sup>2\<close> is below \<^verbatim>\<open>1e-14\<close> and \<open>p\<^sup>2/E\<close> otherwise, and
  \<open>g'(p3) = delta - eps * p3/E3\<close>, or \<open>delta - eps\<close> in the branch of small \<open>m3\<^sup>2\<close>.
\<close>

definition specKappa :: "dbl \<Rightarrow> dbl \<Rightarrow> dbl" where
  "specKappa p msq = (if msq < Fin (1 / 10 ^ 14) then p else p * p / dsqrt (p * p + msq))"

definition specGPrime :: "Kin \<Rightarrow> Array4 \<Rightarrow> dbl \<Rightarrow> dbl" where
  "specGPrime K massSquared p3 =
     (if at2 massSquared < Fin (1 / 10 ^ 14) then delta K - eps K
      else delta K - eps K * p3 / dsqrt (p3 * p3 + at2 massSquared))"

definition specPrefactor :: "Kin \<Rightarrow> Array4 \<Rightarrow> dbl \<Rightarrow> dbl \<Rightarrow> dbl" where
  "specPrefactor K massSquared p2 p3 =
     specKappa p2 (at1 massSquared) * specKappa p3 (at2 massSquared)
       * (Fin 1 / \<bar>specGPrime K massSquared p3\<bar>)"

text \<open>
  The roots as the specification accepts them: the roots of the quadratic with the
  specification's coefficients that satisfy (a) \<open>p3 \<ge> 0\<close>, (b) the residual test with
  the tolerance \<open>10\<^sup>-\<^sup>8\<close> and (c) \<open>E4 = E1 + E2 - E3 \<ge> 0\<close>.
\<close>

definition specAccepted :: "Kin \<Rightarrow> Array4 \<Rightarrow> dbl \<Rightarrow> bool" where
  "specAccepted K massSquared p3 =
     (p3 \<ge> Fin 0 \<and> specResidualOk (1 / 10 ^ 8) K massSquared p3 \<and>
      energyE4 K massSquared p3 \<ge> Fin 0)"

definition specRoots :: "Kin \<Rightarrow> Array4 \<Rightarrow> dbl list" where
  "specRoots K massSquared =
     (case quadraticRoots (delta K * delta K - eps K * eps K) (Fin 2 * kappa K * delta K)
             (specCoeffC K massSquared) of
        (r1, r2) \<Rightarrow> [r1, r2])"

definition specAcceptedRoots :: "Kin \<Rightarrow> Array4 \<Rightarrow> dbl list" where
  "specAcceptedRoots K massSquared = filter (specAccepted K massSquared) (specRoots K massSquared)"

text \<open>
  The value of a sample as the specification writes it: the contribution of a collision
  element at an accepted root is the value of the element times the prefactor, and the
  sum of the contributions is divided by \<open>(2 pi)\<^sup>5 * 8\<close>.
\<close>

definition specRootSum ::
  "'m CollisionIntegral4 \<Rightarrow> int \<Rightarrow> int \<Rightarrow> Kin \<Rightarrow> Array4 \<Rightarrow> dbl \<Rightarrow> dbl \<Rightarrow> dbl" where
  "specRootSum self m n K massSquared p2 p3 =
     (let fvs = fourMomenta K (dsqrt (p3 * p3 + at2 massSquared)) p3
      in foldl (+) (Fin 0)
           (map (\<lambda>collElem.
                   evaluateCollElem self (setDeltaFs self m n fvs collElem) fvs
                     * specPrefactor K massSquared p2 p3)
              (collisionElements self)))"

definition specSampleValue ::
  "'m CollisionIntegral4 \<Rightarrow> int \<Rightarrow> int \<Rightarrow> Kin \<Rightarrow> Array4 \<Rightarrow> dbl \<Rightarrow> dbl" where
  "specSampleValue self m n K massSquared p2 =
     foldl (+) (Fin 0)
       (map (specRootSum self m n K massSquared p2) (specAcceptedRoots K massSquared))
       / Fin ((2 * pi) ^ 5 * 8)"

text \<open>
  The stopping condition of the integrator as the specification writes it:
  \<open>sigma/|mu| \<le> r\<close> or \<open>sigma \<le> a\<close> or \<open>tries \<ge> maxTries\<close>.
\<close>

definition specStop :: "real \<Rightarrow> real \<Rightarrow> nat \<Rightarrow> dbl \<Rightarrow> dbl \<Rightarrow> nat \<Rightarrow> bool" where
  "specStop r a maxTries mu sigma tries =
     (sigma / \<bar>mu\<bar> \<le> Fin r \<or> sigma \<le> Fin a \<or> maxTries \<le> tries)"

section \<open>Sample inputs\<close>

text \<open>
  An integral object for the samples: the momentum maps give the momentum
  \<open>(pPar1, pZ1)\<close> at every grid point, there is one collision element, of four
  equilibrium particles, and \<^verbatim>\<open>evaluate\<close> of a collision element gives 1.
\<close>

definition oneElement :: "unit CollElem" where
  "oneElement =
     \<lparr>particles = replicate 4 \<lparr>bInEquilibrium = True, deltaF = Fin 0\<rparr>, matrixElement = ()\<rparr>"

definition basisStub :: "real \<Rightarrow> real \<Rightarrow> unit CollisionIntegral4" where
  "basisStub pPar1 pZ1 =
     \<lparr>rhoZGrid = (\<lambda>j. Fin 0), rhoParGrid = (\<lambda>k. Fin 0),
      rhoZ_to_pZ = (\<lambda>rho. Fin pZ1), rhoPar_to_pPar = (\<lambda>rho. Fin pPar1),
      TmTn = (\<lambda>m n P. Fin 1), collisionElements = [oneElement],
      evaluateCollElem = (\<lambda>collElem fvs. Fin 1),
      massSquaredLowerBound = Fin (1 / 10 ^ 14), maxIntegrationMomentum = Fin 20\<rparr>"

definition masses :: "real \<Rightarrow> real \<Rightarrow> real \<Rightarrow> real \<Rightarrow> Array4" where
  "masses a b c d = \<lparr>at0 = Fin a, at1 = Fin b, at2 = Fin c, at3 = Fin d\<rparr>"

text \<open>
  Sample A: massless particles, \<open>p1 = (0, 0, 1)\<close>, \<open>p2 = 1\<close>, and \<open>p2\<close> and \<open>p3\<close> along
  \<open>p1\<close> (both cosines 1).
\<close>

definition kinA :: Kin where
  "kinA = kinematicVariables (basisStub 0 1) 0 0 (Fin 1) (Fin 0) (Fin 0) (Fin 1) (Fin 1)
            (masses 0 0 0 0)"

text \<open>
  Sample B: mass squares \<open>(0, 0, 3, 11)\<close>, \<open>p1 = (0, 0, -2)\<close>, \<open>p2 = 2\<close> along the
  z axis (\<open>cosTheta2 = 1\<close>) and \<open>p3\<close> along the x axis (\<open>cosTheta3 = 0\<close>, \<open>phi3 = 0\<close>).
\<close>

definition kinB :: Kin where
  "kinB = kinematicVariables (basisStub 0 (- 2)) 0 0 (Fin 2) (Fin 0) (Fin 0) (Fin 1) (Fin 0)
            (masses 0 0 3 11)"

text \<open>
  Sample D: massless particles, \<open>p1 = (0, 0, 1)\<close>, \<open>p2 = 2\<close> along the x axis
  (\<open>cosTheta2 = 0\<close>, \<open>phi2 = 0\<close>) and \<open>p3\<close> along the z axis.
\<close>

definition kinD :: Kin where
  "kinD = kinematicVariables (basisStub 0 1) 0 0 (Fin 2) (Fin 0) (Fin 0) (Fin 0) (Fin 1)
            (masses 0 0 0 0)"

text \<open>
  Sample E: mass squares \<open>(0, 0, 0, 26)\<close>, \<open>p1 = (0, 0, 1)\<close>, \<open>p2 = 1\<close> along the
  x axis and \<open>p3\<close> along the z axis.
\<close>

definition kinE :: Kin where
  "kinE = kinematicVariables (basisStub 0 1) 0 0 (Fin 1) (Fin 0) (Fin 0) (Fin 0) (Fin 1)
            (masses 0 0 0 26)"

text \<open>
  Sample F: as sample E with the mass squares \<open>(0, 0, 0, 8)\<close>.
\<close>

definition kinF :: Kin where
  "kinF = kinematicVariables (basisStub 0 1) 0 0 (Fin 1) (Fin 0) (Fin 0) (Fin 0) (Fin 1)
            (masses 0 0 0 8)"

text \<open>
  Sample G: massless particles, \<open>p1 = (0, 3, 4)\<close>, \<open>p2 = 0\<close>, and \<open>p3\<close> along the z axis.
\<close>

definition kinG :: Kin where
  "kinG = kinematicVariables (basisStub 3 4) 0 0 (Fin 0) (Fin 0) (Fin 0) (Fin 1) (Fin 1)
            (masses 0 0 0 0)"

text \<open>
  An integral object that shows what reaches its collision element: the particles 1, 2
  and 3 of the element are out of equilibrium, the polynomial factor of a momentum
  \<open>P\<close> is \<open>m * E + n * p\<^sub>z\<close>, and \<^verbatim>\<open>evaluate\<close> gives
  \<open>deltaF\<^sub>0 + deltaF\<^sub>1 - deltaF\<^sub>2 - deltaF\<^sub>3\<close>.
\<close>

definition probeElement :: "unit CollElem" where
  "probeElement =
     \<lparr>particles =
        [\<lparr>bInEquilibrium = False, deltaF = Fin 0\<rparr>, \<lparr>bInEquilibrium = False, deltaF = Fin 0\<rparr>,
         \<lparr>bInEquilibrium = False, deltaF = Fin 0\<rparr>, \<lparr>bInEquilibrium = True, deltaF = Fin 0\<rparr>],
      matrixElement = ()\<rparr>"

definition probeEvaluate :: "unit CollElem \<Rightarrow> FourVector list \<Rightarrow> dbl" where
  "probeEvaluate collElem fvs =
     (case map deltaF (particles collElem) of
        [d0, d1, d2, d3] \<Rightarrow> d0 + d1 - d2 - d3
      | _ \<Rightarrow> NaN)"

definition probeStub :: "real \<Rightarrow> real \<Rightarrow> unit CollisionIntegral4" where
  "probeStub pPar1 pZ1 =
     \<lparr>rhoZGrid = (\<lambda>j. Fin 0), rhoParGrid = (\<lambda>k. Fin 0),
      rhoZ_to_pZ = (\<lambda>rho. Fin pZ1), rhoPar_to_pPar = (\<lambda>rho. Fin pPar1),
      TmTn = (\<lambda>m n P. Fin (of_int m) * fv0 P + Fin (of_int n) * fv3 P),
      collisionElements = [probeElement],
      evaluateCollElem = probeEvaluate,
      massSquaredLowerBound = Fin (1 / 10 ^ 14), maxIntegrationMomentum = Fin 20\<rparr>"

text \<open>An integrator whose every run estimates mean 1 with error 1.\<close>

definition constVegas :: "unit vegas" where
  "constVegas G xl xu calls st = ((), Fin 1, Fin 1)"

text \<open>A tensor with one registered particle, and a file system with one file.\<close>

definition topTensor :: CollisionTensor where
  "topTensor =
     \<lparr>tensorParticles = [\<lparr>particleName = ''top'', msqVacuum = Fin 0, msqThermal = Fin 0\<rparr>],
      matrixElementFile = ''MatrixElements.txt'', evaluationInProgress = False\<rparr>"


definition oneFile :: "string \<Rightarrow> bool" where
  "oneFile path = (path = ''MatrixElements.txt'')"

section \<open>Arithmetic of doubles\<close>

lemma ddiv_ddiv: "0 < a \<Longrightarrow> 0 < b \<Longrightarrow> x / Fin a / Fin b = x / Fin (a * b)"
  by (cases x) (simp_all add: zero_le_mult_iff)

lemma pi2Pow5:
  "(Fin 2 * Fin pi) * (Fin 2 * Fin pi) * (Fin 2 * Fin pi) * (Fin 2 * Fin pi) * (Fin 2 * Fin pi)
     = Fin ((2 * pi) ^ 5)"
  by (simp add: power_def numeral_eq_Suc)

lemma normalization:
  "x / ((Fin 2 * Fin pi) * (Fin 2 * Fin pi) * (Fin 2 * Fin pi) * (Fin 2 * Fin pi) * (Fin 2 * Fin pi))
     / Fin 8 = x / Fin ((2 * pi) ^ 5 * 8)"
  unfolding pi2Pow5 by (rule ddiv_ddiv) simp_all

lemma sqrt_values:
  "sqrt 4 = 2" "sqrt 16384 = 128" "sqrt 2304 = 48" "sqrt 25 = 5" "sqrt 36864 = 192"
  "sqrt 16 = 4"
  using real_sqrt_abs[of 2] real_sqrt_abs[of 128] real_sqrt_abs[of 48] real_sqrt_abs[of 5]
    real_sqrt_abs[of 192] real_sqrt_abs[of 4]
  by simp_all

text \<open>
  A negative discriminant: the square root is NaN and so are both roots, which then
  fail the test \<^verbatim>\<open>root >= 0.0\<close>.
\<close>

lemma negative_discriminant_roots:
  assumes "B * B - Fin 4 * A * C < Fin 0"
  shows "quadraticRoots A B C = (NaN, NaN)"
proof -
  from assms have "dsqrt (B * B - Fin 4 * A * C) = NaN"
    by (cases "B * B - Fin 4 * A * C") simp_all
  moreover have "Fin (1 / 2) * (- B - NaN) / A = NaN" "Fin (1 / 2) * (- B + NaN) / A = NaN"
    by (cases B; cases A; simp add: minus_dbl_def)+
  ultimately show ?thesis
    by (simp add: quadraticRoots_def Let_def)
qed

lemma negative_discriminant_example: "quadraticRoots (Fin 1) (Fin 0) (Fin 1) = (NaN, NaN)"
  by (rule negative_discriminant_roots) (simp add: minus_dbl_def)

lemma NaN_not_accepted: "\<not> NaN \<ge> Fin 0"
  by simp

section \<open>The loops of the integrand\<close>

lemma collElemLoop_foldl:
  "collElemLoop self m n fvs elems acc =
     foldl (+) acc
       (map (\<lambda>collElem. evaluateCollElem self (setDeltaFs self m n fvs collElem) fvs) elems)"
  by (induction elems arbitrary: acc) simp_all

lemma energy_fourMomenta: "energy (fourMomenta K E3 p3 ! 3) = E1 K + E2 K - E3"
  by (simp add: fourMomenta_def Let_def energy_def fvSub_def fvAdd_def)

lemma rootBody_discard:
  "energyE4 K massSquared p3 < Fin 0 \<Longrightarrow>
   rootBody self m n p2 massSquared K p3 =
     ((if \<bar>funcG K massSquared p3\<bar> > Fin (1 / 10 ^ 8) then [InvalidRoot] else []) @
      [NegativeEnergyE4 (energyE4 K massSquared p3)], None)"
  by (simp add: rootBody_def Let_def energy_fourMomenta energyE4_def)

lemma rootBody_add:
  "\<not> energyE4 K massSquared p3 < Fin 0 \<Longrightarrow>
   rootBody self m n p2 massSquared K p3 =
     (if \<bar>funcG K massSquared p3\<bar> > Fin (1 / 10 ^ 8) then [InvalidRoot] else [],
      Some (elementSum self m n (fourMomenta K (dsqrt (p3 * p3 + at2 massSquared)) p3)
              / \<bar>gDerivative self K massSquared p3\<bar>))"
  by (simp add: rootBody_def Let_def energy_fourMomenta energyE4_def elementSum_def
      collElemLoop_foldl gDerivative_def)

lemma rootp3_filter: "rootp3 q = filter (\<lambda>r. r \<ge> Fin 0) [root1 q, root2 q]"
  by (simp add: rootp3_def)

lemma not_negative: "x \<ge> Fin 0 \<Longrightarrow> \<not> x < Fin 0"
  by (cases x) simp_all

lemma above_scaled_tolerance:
  assumes "Fin (1 / 10 ^ 8) * (if Fin 1 < \<bar>k\<bar> then \<bar>k\<bar> else Fin 1) < \<bar>g\<bar>"
  shows "Fin (1 / 10 ^ 8) < \<bar>g\<bar>"
proof (cases "Fin 1 < \<bar>k\<bar>")
  case False
  with assms show ?thesis by simp
next
  case True
  show ?thesis
  proof (cases k)
    case (Fin a)
    with True have "1 < \<bar>a\<bar>" by simp
    then have "(1 / 10 ^ 8 :: real) \<le> 1 / 10 ^ 8 * \<bar>a\<bar>" by simp
    with assms True Fin show ?thesis by (cases g) simp_all
  next
    case PInf
    with assms True show ?thesis by (cases g) simp_all
  next
    case NInf
    with assms True show ?thesis by (cases g) simp_all
  next
    case NaN
    with True show ?thesis by simp
  qed
qed

section \<open>The samples evaluated\<close>

lemmas kin_eval = kinematicVariables_def basisStub_def masses_def Let_def mkFourVector_def
  fvDot_def fvScale_def minus_dbl_def sqrt_values

lemmas quad_eval = solveQuadratic_def quadraticRoots_def Let_def minus_dbl_def sqrt_values

lemmas body_eval = rootBody_def funcG_def fourMomenta_def fvAdd_def fvSub_def fvScale_def
  energy_def Let_def minus_dbl_def sqrt_values basisStub_def masses_def oneElement_def
  setDeltaFs_def

lemma kinA_value:
  "kinA = \<lparr>FV1dummy = \<lparr>fv0 = Fin 0, fv1 = Fin 0, fv2 = Fin 0, fv3 = Fin 1\<rparr>,
           FV2dummy = \<lparr>fv0 = Fin 0, fv1 = Fin 0, fv2 = Fin 0, fv3 = Fin 1\<rparr>,
           FV3Hat = \<lparr>fv0 = Fin 0, fv1 = Fin 0, fv2 = Fin 0, fv3 = Fin 1\<rparr>,
           E1 = Fin 1, E2 = Fin 1, kappa = Fin 0, eps = Fin 4, delta = Fin 4\<rparr>"
  by (simp add: kinA_def kin_eval)

lemma kinB_value:
  "kinB = \<lparr>FV1dummy = \<lparr>fv0 = Fin 0, fv1 = Fin 0, fv2 = Fin 0, fv3 = Fin (- 2)\<rparr>,
           FV2dummy = \<lparr>fv0 = Fin 0, fv1 = Fin 0, fv2 = Fin 0, fv3 = Fin 2\<rparr>,
           FV3Hat = \<lparr>fv0 = Fin 0, fv1 = Fin 1, fv2 = Fin 0, fv3 = Fin 0\<rparr>,
           E1 = Fin 2, E2 = Fin 2, kappa = Fin 8, eps = Fin 8, delta = Fin 0\<rparr>"
  by (simp add: kinB_def kin_eval)

lemma kinD_value:
  "kinD = \<lparr>FV1dummy = \<lparr>fv0 = Fin 0, fv1 = Fin 0, fv2 = Fin 0, fv3 = Fin 1\<rparr>,
           FV2dummy = \<lparr>fv0 = Fin 0, fv1 = Fin 2, fv2 = Fin 0, fv3 = Fin 0\<rparr>,
           FV3Hat = \<lparr>fv0 = Fin 0, fv1 = Fin 0, fv2 = Fin 0, fv3 = Fin 1\<rparr>,
           E1 = Fin 1, E2 = Fin 2, kappa = Fin 4, eps = Fin 6, delta = Fin 2\<rparr>"
  by (simp add: kinD_def kin_eval)

lemma kinE_value:
  "kinE = \<lparr>FV1dummy = \<lparr>fv0 = Fin 0, fv1 = Fin 0, fv2 = Fin 0, fv3 = Fin 1\<rparr>,
           FV2dummy = \<lparr>fv0 = Fin 0, fv1 = Fin 1, fv2 = Fin 0, fv3 = Fin 0\<rparr>,
           FV3Hat = \<lparr>fv0 = Fin 0, fv1 = Fin 0, fv2 = Fin 0, fv3 = Fin 1\<rparr>,
           E1 = Fin 1, E2 = Fin 1, kappa = Fin (- 24), eps = Fin 4, delta = Fin 2\<rparr>"
  by (simp add: kinE_def kin_eval)

lemma kinF_value:
  "kinF = \<lparr>FV1dummy = \<lparr>fv0 = Fin 0, fv1 = Fin 0, fv2 = Fin 0, fv3 = Fin 1\<rparr>,
           FV2dummy = \<lparr>fv0 = Fin 0, fv1 = Fin 1, fv2 = Fin 0, fv3 = Fin 0\<rparr>,
           FV3Hat = \<lparr>fv0 = Fin 0, fv1 = Fin 0, fv2 = Fin 0, fv3 = Fin 1\<rparr>,
           E1 = Fin 1, E2 = Fin 1, kappa = Fin (- 6), eps = Fin 4, delta = Fin 2\<rparr>"
  by (simp add: kinF_def kin_eval)

lemma kinG_value:
  "kinG = \<lparr>FV1dummy = \<lparr>fv0 = Fin 0, fv1 = Fin 0, fv2 = Fin 3, fv3 = Fin 4\<rparr>,
           FV2dummy = \<lparr>fv0 = Fin 0, fv1 = Fin 0, fv2 = Fin 0, fv3 = Fin 0\<rparr>,
           FV3Hat = \<lparr>fv0 = Fin 0, fv1 = Fin 0, fv2 = Fin 0, fv3 = Fin 1\<rparr>,
           E1 = Fin 5, E2 = Fin 0, kappa = Fin 0, eps = Fin 10, delta = Fin 8\<rparr>"
  by (simp add: kinG_def kin_eval)

lemma quadA_value:
  "solveQuadratic kinA =
     \<lparr>coeffA = Fin 0, coeffB = Fin 0, coeffC = Fin 0, root1 = NaN, root2 = NaN\<rparr>"
  by (simp add: kinA_value quad_eval)

lemma quadB_value:
  "solveQuadratic kinB =
     \<lparr>coeffA = Fin (- 64), coeffB = Fin 0, coeffC = Fin 64, root1 = Fin 1, root2 = Fin (- 1)\<rparr>"
  by (simp add: kinB_value quad_eval)

lemma quadD_value:
  "solveQuadratic kinD =
     \<lparr>coeffA = Fin (- 32), coeffB = Fin 16, coeffC = Fin 16, root1 = Fin 1,
      root2 = Fin (- (1 / 2))\<rparr>"
  by (simp add: kinD_value quad_eval)

lemma quadE_value:
  "solveQuadratic kinE =
     \<lparr>coeffA = Fin (- 12), coeffB = Fin (- 96), coeffC = Fin 576, root1 = Fin 4,
      root2 = Fin (- 12)\<rparr>"
  by (simp add: kinE_value quad_eval)

lemma quadF_value:
  "solveQuadratic kinF =
     \<lparr>coeffA = Fin (- 12), coeffB = Fin (- 24), coeffC = Fin 36, root1 = Fin 1,
      root2 = Fin (- 3)\<rparr>"
  by (simp add: kinF_value quad_eval)

lemma quadG_value:
  "solveQuadratic kinG =
     \<lparr>coeffA = Fin (- 36), coeffB = Fin 0, coeffC = Fin 0, root1 = Fin 0, root2 = Fin 0\<rparr>"
  by (simp add: kinG_value quad_eval)

lemma bodyD:
  "rootBody (basisStub 0 1) m n (Fin 2) (masses 0 0 0 0) kinD (Fin 1) = ([], Some (Fin (1 / 4)))"
  by (simp add: kinD_value body_eval)

lemma bodyE:
  "rootBody (basisStub 0 1) m n (Fin 1) (masses 0 0 0 26) kinE (Fin 4) =
     ([InvalidRoot, NegativeEnergyE4 (Fin (- 2))], None)"
  by (simp add: kinE_value body_eval)

lemma rootsD: "rootp3 (solveQuadratic kinD) = [Fin 1]"
  by (simp add: rootp3_def quadD_value)

lemma rootsE: "rootp3 (solveQuadratic kinE) = [Fin 4]"
  by (simp add: rootp3_def quadE_value)

lemma rootsF: "rootp3 (solveQuadratic kinF) = [Fin 1]"
  by (simp add: rootp3_def quadF_value)

lemma rootsG: "rootp3 (solveQuadratic kinG) = [Fin 0, Fin 0]"
  by (simp add: rootp3_def quadG_value)

lemma integrandD:
  "calculateIntegrand (basisStub 0 1) m n 0 0 (Fin 2) (Fin 0) (Fin 0) (Fin 0) (Fin 1)
     (masses 0 0 0 0) = (Fin (1 / 4 / ((2 * pi) ^ 5 * 8)), [])"
  unfolding calculateIntegrand_def kinD_def[symmetric] Let_def rootsD normalization
  by (simp add: bodyD)

lemma integrandE:
  "calculateIntegrand (basisStub 0 1) m n 0 0 (Fin 1) (Fin 0) (Fin 0) (Fin 0) (Fin 1)
     (masses 0 0 0 26) = (Fin 0, [InvalidRoot, NegativeEnergyE4 (Fin (- 2))])"
  unfolding calculateIntegrand_def kinE_def[symmetric] Let_def rootsE normalization
  by (simp add: bodyE)

text \<open>The samples D, F and G with the integral object that shows its momenta.\<close>

lemma kinematicVariables_probe:
  "kinematicVariables (probeStub pPar1 pZ1) j k p2 phi2 phi3 cosTheta2 cosTheta3 massSquared =
     kinematicVariables (basisStub pPar1 pZ1) j k p2 phi2 phi3 cosTheta2 cosTheta3 massSquared"
  by (simp add: kinematicVariables_def probeStub_def basisStub_def)

lemmas probe_eval = elementSum_def probeStub_def probeElement_def probeEvaluate_def
  setDeltaFs_def minus_dbl_def

lemma momentaD:
  "fourMomenta kinD (Fin 1) (Fin 1) =
     [\<lparr>fv0 = Fin 1, fv1 = Fin 0, fv2 = Fin 0, fv3 = Fin 1\<rparr>,
      \<lparr>fv0 = Fin 2, fv1 = Fin 2, fv2 = Fin 0, fv3 = Fin 0\<rparr>,
      \<lparr>fv0 = Fin 1, fv1 = Fin 0, fv2 = Fin 0, fv3 = Fin 1\<rparr>,
      \<lparr>fv0 = Fin 2, fv1 = Fin 2, fv2 = Fin 0, fv3 = Fin 0\<rparr>]"
  by (simp add: fourMomenta_def kinD_value Let_def fvAdd_def fvSub_def fvScale_def minus_dbl_def)

lemma momentaF:
  "fourMomenta kinF (Fin 1) (Fin 1) =
     [\<lparr>fv0 = Fin 1, fv1 = Fin 0, fv2 = Fin 0, fv3 = Fin 1\<rparr>,
      \<lparr>fv0 = Fin 1, fv1 = Fin 1, fv2 = Fin 0, fv3 = Fin 0\<rparr>,
      \<lparr>fv0 = Fin 1, fv1 = Fin 0, fv2 = Fin 0, fv3 = Fin 1\<rparr>,
      \<lparr>fv0 = Fin 1, fv1 = Fin 1, fv2 = Fin 0, fv3 = Fin 0\<rparr>]"
  by (simp add: fourMomenta_def kinF_value Let_def fvAdd_def fvSub_def fvScale_def minus_dbl_def)

lemma momentaG:
  "fourMomenta kinG (Fin 0) (Fin 0) =
     [\<lparr>fv0 = Fin 5, fv1 = Fin 0, fv2 = Fin 3, fv3 = Fin 4\<rparr>,
      \<lparr>fv0 = Fin 0, fv1 = Fin 0, fv2 = Fin 0, fv3 = Fin 0\<rparr>,
      \<lparr>fv0 = Fin 0, fv1 = Fin 0, fv2 = Fin 0, fv3 = Fin 0\<rparr>,
      \<lparr>fv0 = Fin 5, fv1 = Fin 0, fv2 = Fin 3, fv3 = Fin 4\<rparr>]"
  by (simp add: fourMomenta_def kinG_value Let_def fvAdd_def fvSub_def fvScale_def minus_dbl_def)

lemma elementsD: "elementSum (probeStub 0 1) 2 1 (fourMomenta kinD (Fin 1) (Fin 1)) = Fin 4"
  by (simp add: momentaD probe_eval)

lemma elementsF: "elementSum (probeStub 0 1) 2 1 (fourMomenta kinF (Fin 1) (Fin 1)) = Fin 2"
  by (simp add: momentaF probe_eval)

lemma elementsG: "elementSum (probeStub 3 4) 2 1 (fourMomenta kinG (Fin 0) (Fin 0)) = Fin 14"
  by (simp add: momentaG probe_eval)

lemma probeBodyD:
  "rootBody (probeStub 0 1) 2 1 (Fin 2) (masses 0 0 0 0) kinD (Fin 1) = ([], Some (Fin 1))"
proof -
  have e: "\<not> energyE4 kinD (masses 0 0 0 0) (Fin 1) < Fin 0"
    by (simp add: energyE4_def kinD_value masses_def minus_dbl_def)
  have s: "dsqrt (Fin 1 * Fin 1 + at2 (masses 0 0 0 0)) = Fin 1"
    by (simp add: masses_def)
  show ?thesis
    unfolding rootBody_add[OF e] s elementsD
    by (simp add: funcG_def gDerivative_def kinD_value masses_def probeStub_def minus_dbl_def)
qed

lemma probeBodyF:
  "rootBody (probeStub 0 1) 2 1 (Fin 1) (masses 0 0 0 8) kinF (Fin 1) =
     ([InvalidRoot], Some (Fin 1))"
proof -
  have e: "\<not> energyE4 kinF (masses 0 0 0 8) (Fin 1) < Fin 0"
    by (simp add: energyE4_def kinF_value masses_def minus_dbl_def)
  have s: "dsqrt (Fin 1 * Fin 1 + at2 (masses 0 0 0 8)) = Fin 1"
    by (simp add: masses_def)
  show ?thesis
    unfolding rootBody_add[OF e] s elementsF
    by (simp add: funcG_def gDerivative_def kinF_value masses_def probeStub_def minus_dbl_def)
qed

lemma probeBodyG:
  "rootBody (probeStub 3 4) 2 1 (Fin 0) (masses 0 0 0 0) kinG (Fin 0) = ([], Some (Fin 7))"
proof -
  have e: "\<not> energyE4 kinG (masses 0 0 0 0) (Fin 0) < Fin 0"
    by (simp add: energyE4_def kinG_value masses_def minus_dbl_def)
  have s: "dsqrt (Fin 0 * Fin 0 + at2 (masses 0 0 0 0)) = Fin 0"
    by (simp add: masses_def)
  show ?thesis
    unfolding rootBody_add[OF e] s elementsG
    by (simp add: funcG_def gDerivative_def kinG_value masses_def probeStub_def minus_dbl_def)
qed

lemma probeIntegrandD:
  "calculateIntegrand (probeStub 0 1) 2 1 0 0 (Fin 2) (Fin 0) (Fin 0) (Fin 0) (Fin 1)
     (masses 0 0 0 0) = (Fin (1 / ((2 * pi) ^ 5 * 8)), [])"
  unfolding calculateIntegrand_def kinematicVariables_probe kinD_def[symmetric] Let_def rootsD
    normalization
  by (simp add: probeBodyD)

lemma probeIntegrandF:
  "calculateIntegrand (probeStub 0 1) 2 1 0 0 (Fin 1) (Fin 0) (Fin 0) (Fin 0) (Fin 1)
     (masses 0 0 0 8) = (Fin (1 / ((2 * pi) ^ 5 * 8)), [InvalidRoot])"
  unfolding calculateIntegrand_def kinematicVariables_probe kinF_def[symmetric] Let_def rootsF
    normalization
  by (simp add: probeBodyF)

lemma probeIntegrandG:
  "calculateIntegrand (probeStub 3 4) 2 1 0 0 (Fin 0) (Fin 0) (Fin 0) (Fin 1) (Fin 1)
     (masses 0 0 0 0) = (Fin (14 / ((2 * pi) ^ 5 * 8)), [])"
  unfolding calculateIntegrand_def kinematicVariables_probe kinG_def[symmetric] Let_def rootsG
    normalization
  by (simp add: probeBodyG)

section \<open>The value of the integrand\<close>

text \<open>
  C10: when neither root of the quadratic passes the test \<^verbatim>\<open>root >= 0.0\<close>,
  \<^verbatim>\<open>calculateIntegrand\<close> returns exactly 0, and writes nothing. This includes the roots
  that are NaN, which fail the test (\<open>NaN_not_accepted\<close>) and which a negative
  discriminant gives (\<open>negative_discriminant_roots\<close>).
\<close>

theorem no_accepted_root_gives_zero:
  assumes "\<not> root1 (solveQuadratic
              (kinematicVariables self j k p2 phi2 phi3 cosTheta2 cosTheta3 massSquared)) \<ge> Fin 0"
    and "\<not> root2 (solveQuadratic
              (kinematicVariables self j k p2 phi2 phi3 cosTheta2 cosTheta3 massSquared)) \<ge> Fin 0"
  shows "calculateIntegrand self m n j k p2 phi2 phi3 cosTheta2 cosTheta3 massSquared = (Fin 0, [])"
  using assms by (simp add: calculateIntegrand_def Let_def rootp3_def)

text \<open>At sample A both roots are \<^verbatim>\<open>0/0\<close>, which is NaN.\<close>

theorem no_accepted_root_gives_zero_witness:
  "\<not> root1 (solveQuadratic kinA) \<ge> Fin 0 \<and> \<not> root2 (solveQuadratic kinA) \<ge> Fin 0 \<and>
   calculateIntegrand (basisStub 0 1) 2 1 0 0 (Fin 1) (Fin 0) (Fin 0) (Fin 1) (Fin 1)
     (masses 0 0 0 0) = (Fin 0, [])"
proof -
  have h1: "\<not> root1 (solveQuadratic (kinematicVariables (basisStub 0 1) 0 0 (Fin 1) (Fin 0) (Fin 0)
                (Fin 1) (Fin 1) (masses 0 0 0 0))) \<ge> Fin 0"
    unfolding kinA_def[symmetric] by (simp add: quadA_value)
  have h2: "\<not> root2 (solveQuadratic (kinematicVariables (basisStub 0 1) 0 0 (Fin 1) (Fin 0) (Fin 0)
                (Fin 1) (Fin 1) (masses 0 0 0 0))) \<ge> Fin 0"
    unfolding kinA_def[symmetric] by (simp add: quadA_value)
  from no_accepted_root_gives_zero[OF h1 h2, of 2 1] h1 h2 show ?thesis
    unfolding kinA_def[symmetric] by simp
qed

text \<open>
  C6: the value \<^verbatim>\<open>calculateIntegrand\<close> returns is the sum of the collision elements'
  contributions over the accepted roots, divided by \<open>(2 pi)\<^sup>5 * 8\<close>. The function does
  divide what it has accumulated by \<open>(2 pi)\<^sup>5 * 8\<close>, but what it accumulates for a root is
  the sum of the elements divided by \<open>|gDer|\<close>, without the two \<open>kappa\<close> factors of the
  prefactor, which it computes into \<^verbatim>\<open>kinPrefac\<close> and never uses. At sample D the one
  accepted root is \<open>p3 = 1\<close>, the element has the value 4 and the prefactor is \<open>1/2\<close>:
  the value of the sample is \<open>2 / ((2 pi)\<^sup>5 * 8)\<close>, and the function returns
  \<open>1 / ((2 pi)\<^sup>5 * 8)\<close>.
\<close>

theorem sample_value_lacks_prefactor:
  "specAcceptedRoots kinD (masses 0 0 0 0) = [Fin 1] \<and>
   rootp3 (solveQuadratic kinD) = [Fin 1] \<and>
   elementSum (probeStub 0 1) 2 1 (fourMomenta kinD (Fin 1) (Fin 1)) = Fin 4 \<and>
   specPrefactor kinD (masses 0 0 0 0) (Fin 2) (Fin 1) = Fin (1 / 2) \<and>
   specSampleValue (probeStub 0 1) 2 1 kinD (masses 0 0 0 0) (Fin 2) =
     Fin (2 / ((2 * pi) ^ 5 * 8)) \<and>
   calculateIntegrand (probeStub 0 1) 2 1 0 0 (Fin 2) (Fin 0) (Fin 0) (Fin 0) (Fin 1)
     (masses 0 0 0 0) = (Fin (1 / ((2 * pi) ^ 5 * 8)), [])"
proof -
  have c: "specCoeffC kinD (masses 0 0 0 0) = Fin 16"
    by (simp add: specCoeffC_def kinD_value masses_def minus_dbl_def)
  have r: "specRoots kinD (masses 0 0 0 0) = [Fin 1, Fin (- (1 / 2))]"
    unfolding specRoots_def c
    by (simp add: kinD_value quadraticRoots_def Let_def minus_dbl_def sqrt_values)
  have a1: "specAccepted kinD (masses 0 0 0 0) (Fin 1)"
    by (simp add: specAccepted_def specResidualOk_def funcG_def energyE4_def kinD_value
        masses_def Let_def minus_dbl_def)
  have a2: "\<not> specAccepted kinD (masses 0 0 0 0) (Fin (- (1 / 2)))"
    by (simp add: specAccepted_def)
  have a: "specAcceptedRoots kinD (masses 0 0 0 0) = [Fin 1]"
    by (simp add: specAcceptedRoots_def r a1 a2)
  have p: "specPrefactor kinD (masses 0 0 0 0) (Fin 2) (Fin 1) = Fin (1 / 2)"
    by (simp add: specPrefactor_def specKappa_def specGPrime_def kinD_value masses_def
        minus_dbl_def)
  have s: "dsqrt (Fin 1 * Fin 1 + at2 (masses 0 0 0 0)) = Fin 1"
    by (simp add: masses_def)
  have "specRootSum (probeStub 0 1) 2 1 kinD (masses 0 0 0 0) (Fin 2) (Fin 1) = Fin 2"
    unfolding specRootSum_def s p momentaD Let_def
    by (simp add: probeStub_def probeElement_def probeEvaluate_def setDeltaFs_def minus_dbl_def)
  then have "specSampleValue (probeStub 0 1) 2 1 kinD (masses 0 0 0 0) (Fin 2) =
      Fin (2 / ((2 * pi) ^ 5 * 8))"
    by (simp add: specSampleValue_def a)
  with a p show ?thesis
    by (simp add: rootsD elementsD probeIntegrandD)
qed

section \<open>Which roots are discarded, and what is written\<close>

text \<open>
  C2, as the specification states it, fails at sample E, where the particle 3 is
  massless and the quadratic of the function is the one of the specification. The root
  \<open>p3 = 4\<close> has \<open>E4 = -2\<close> and is not accepted; the function discards it and returns 0,
  but not silently: it writes two messages to \<^verbatim>\<open>std::cerr\<close>.
\<close>

theorem discarded_root_is_reported:
  "coeffC (solveQuadratic kinE) = specCoeffC kinE (masses 0 0 0 26) \<and>
   rootp3 (solveQuadratic kinE) = [Fin 4] \<and>
   energyE4 kinE (masses 0 0 0 26) (Fin 4) = Fin (- 2) \<and>
   \<not> specAccepted kinE (masses 0 0 0 26) (Fin 4) \<and>
   calculateIntegrand (basisStub 0 1) 2 1 0 0 (Fin 1) (Fin 0) (Fin 0) (Fin 0) (Fin 1)
     (masses 0 0 0 26) = (Fin 0, [InvalidRoot, NegativeEnergyE4 (Fin (- 2))])"
proof -
  have e: "energyE4 kinE (masses 0 0 0 26) (Fin 4) = Fin (- 2)"
    by (simp add: energyE4_def kinE_value masses_def minus_dbl_def sqrt_values)
  have "specCoeffC kinE (masses 0 0 0 26) = Fin 576"
    by (simp add: specCoeffC_def kinE_value masses_def minus_dbl_def)
  with e show ?thesis
    by (simp add: quadE_value rootp3_def integrandE specAccepted_def)
qed

text \<open>
  C2 (amended): the loop runs over the computed roots that pass \<^verbatim>\<open>root >= 0.0\<close>, so a
  root that fails (a) is discarded silently. A root with \<open>E4 = E1 + E2 - E3 < 0\<close> is
  discarded, it adds nothing to the integrand, but not silently: the last message
  written for it is the one of a negative energy. A root whose residual \<open>|g(p3)|\<close>
  exceeds \<open>10\<^sup>-\<^sup>8 * max(1, |kappa|)\<close> is reported by the message of an invalid root. A
  root that satisfies (a), (b) and (c) contributes: the sum of the collision elements
  at its momenta, divided by \<open>|gDer|\<close>, is added to the integrand.
\<close>

theorem roots_discarded_reported_or_added:
  assumes K: "K = kinematicVariables self j k p2 phi2 phi3 cosTheta2 cosTheta3 massSquared"
    and body: "body = rootBody self m n p2 massSquared K"
  shows
    "calculateIntegrand self m n j k p2 phi2 phi3 cosTheta2 cosTheta3 massSquared =
       (case rootLoop body
               (filter (\<lambda>r. r \<ge> Fin 0) [root1 (solveQuadratic K), root2 (solveQuadratic K)])
               (Fin 0, []) of
          (fullIntegrand, cerr) \<Rightarrow> (fullIntegrand / Fin ((2 * pi) ^ 5 * 8), cerr)) \<and>
     (energyE4 K massSquared p3 < Fin 0 \<longrightarrow>
        rootLoop body [p3] (acc, cerr) = (acc, cerr @ fst (body p3)) \<and>
        last (fst (body p3)) = NegativeEnergyE4 (energyE4 K massSquared p3)) \<and>
     (Fin (1 / 10 ^ 8) * (if Fin 1 < \<bar>kappa K\<bar> then \<bar>kappa K\<bar> else Fin 1)
          < \<bar>funcG K massSquared p3\<bar> \<longrightarrow>
        InvalidRoot \<in> set (fst (body p3))) \<and>
     (specAccepted K massSquared p3 \<longrightarrow>
        rootLoop body [p3] (acc, cerr) =
          (acc + elementSum self m n (fourMomenta K (dsqrt (p3 * p3 + at2 massSquared)) p3)
                   / \<bar>gDerivative self K massSquared p3\<bar>,
           cerr @ fst (body p3)))"
proof (intro conjI impI)
  show "calculateIntegrand self m n j k p2 phi2 phi3 cosTheta2 cosTheta3 massSquared =
       (case rootLoop body
               (filter (\<lambda>r. r \<ge> Fin 0) [root1 (solveQuadratic K), root2 (solveQuadratic K)])
               (Fin 0, []) of
          (fullIntegrand, cerr) \<Rightarrow> (fullIntegrand / Fin ((2 * pi) ^ 5 * 8), cerr))"
    unfolding calculateIntegrand_def Let_def normalization rootp3_filter K body
    by (simp add: case_prod_beta)
next
  assume "energyE4 K massSquared p3 < Fin 0"
  then show "rootLoop body [p3] (acc, cerr) = (acc, cerr @ fst (body p3))"
    and "last (fst (body p3)) = NegativeEnergyE4 (energyE4 K massSquared p3)"
    by (simp_all add: body rootBody_discard)
next
  assume "Fin (1 / 10 ^ 8) * (if Fin 1 < \<bar>kappa K\<bar> then \<bar>kappa K\<bar> else Fin 1)
            < \<bar>funcG K massSquared p3\<bar>"
  then have g: "Fin (1 / 10 ^ 8) < \<bar>funcG K massSquared p3\<bar>"
    by (rule above_scaled_tolerance)
  show "InvalidRoot \<in> set (fst (body p3))"
  proof (cases "energyE4 K massSquared p3 < Fin 0")
    case True
    with g show ?thesis by (simp add: body rootBody_discard)
  next
    case False
    with g show ?thesis by (simp add: body rootBody_add)
  qed
next
  assume "specAccepted K massSquared p3"
  then have "\<not> energyE4 K massSquared p3 < Fin 0"
    by (simp add: specAccepted_def not_negative)
  then show "rootLoop body [p3] (acc, cerr) =
          (acc + elementSum self m n (fourMomenta K (dsqrt (p3 * p3 + at2 massSquared)) p3)
                   / \<bar>gDerivative self K massSquared p3\<bar>,
           cerr @ fst (body p3))"
    by (simp add: body rootBody_add)
qed

text \<open>
  At sample E the root \<open>p3 = 4\<close> is discarded with its two messages; at sample D the
  accepted root \<open>p3 = 1\<close> adds \<open>4 / 4 = 1\<close>.
\<close>

theorem roots_discarded_reported_or_added_witness:
  "energyE4 kinE (masses 0 0 0 26) (Fin 4) < Fin 0 \<and>
   Fin (1 / 10 ^ 8) * (if Fin 1 < \<bar>kappa kinE\<bar> then \<bar>kappa kinE\<bar> else Fin 1)
     < \<bar>funcG kinE (masses 0 0 0 26) (Fin 4)\<bar> \<and>
   rootLoop (rootBody (basisStub 0 1) 2 1 (Fin 1) (masses 0 0 0 26) kinE) [Fin 4] (Fin 0, []) =
     (Fin 0, [InvalidRoot, NegativeEnergyE4 (Fin (- 2))]) \<and>
   InvalidRoot \<in> set (fst (rootBody (basisStub 0 1) 2 1 (Fin 1) (masses 0 0 0 26) kinE (Fin 4))) \<and>
   specAccepted kinD (masses 0 0 0 0) (Fin 1) \<and>
   rootLoop (rootBody (probeStub 0 1) 2 1 (Fin 2) (masses 0 0 0 0) kinD) [Fin 1] (Fin 0, []) =
     (Fin 1, []) \<and>
   calculateIntegrand (probeStub 0 1) 2 1 0 0 (Fin 2) (Fin 0) (Fin 0) (Fin 0) (Fin 1)
     (masses 0 0 0 0) = (Fin 1 / Fin ((2 * pi) ^ 5 * 8), [])"
proof -
  have e: "energyE4 kinE (masses 0 0 0 26) (Fin 4) < Fin 0"
    by (simp add: energyE4_def kinE_value masses_def minus_dbl_def sqrt_values)
  have g: "Fin (1 / 10 ^ 8) * (if Fin 1 < \<bar>kappa kinE\<bar> then \<bar>kappa kinE\<bar> else Fin 1)
             < \<bar>funcG kinE (masses 0 0 0 26) (Fin 4)\<bar>"
    by (simp add: funcG_def kinE_value masses_def Let_def minus_dbl_def sqrt_values)
  have a: "specAccepted kinD (masses 0 0 0 0) (Fin 1)"
    by (simp add: specAccepted_def specResidualOk_def funcG_def energyE4_def kinD_value
        masses_def Let_def minus_dbl_def)
  have kD: "kinD = kinematicVariables (probeStub 0 1) 0 0 (Fin 2) (Fin 0) (Fin 0) (Fin 0) (Fin 1)
              (masses 0 0 0 0)"
    by (simp add: kinD_def kinematicVariables_probe)
  note E = roots_discarded_reported_or_added[OF kinE_def refl, of 2 1 "Fin 4" "Fin 0" "[]"]
  note D = roots_discarded_reported_or_added[OF kD refl, of 2 1 "Fin 1" "Fin 0" "[]"]
  have 1: "rootLoop (rootBody (basisStub 0 1) 2 1 (Fin 1) (masses 0 0 0 26) kinE) [Fin 4]
             (Fin 0, []) = (Fin 0, [InvalidRoot, NegativeEnergyE4 (Fin (- 2))])"
    using E e by (simp add: bodyE)
  have 2: "InvalidRoot \<in> set (fst (rootBody (basisStub 0 1) 2 1 (Fin 1) (masses 0 0 0 26) kinE
             (Fin 4)))"
    using E g by blast
  have 3: "rootLoop (rootBody (probeStub 0 1) 2 1 (Fin 2) (masses 0 0 0 0) kinD) [Fin 1]
             (Fin 0, []) = (Fin 1, [])"
    using D a by (simp add: probeBodyD)
  have 4: "calculateIntegrand (probeStub 0 1) 2 1 0 0 (Fin 2) (Fin 0) (Fin 0) (Fin 0) (Fin 1)
             (masses 0 0 0 0) = (Fin 1 / Fin ((2 * pi) ^ 5 * 8), [])"
    using D by (simp add: quadD_value probeBodyD)
  from e g a 1 2 3 4 show ?thesis by blast
qed

section \<open>The momenta that enter the sum\<close>

text \<open>
  C4: the momenta that enter the sum over the collision elements belong to a root with
  a residual \<open>|g(p3)| \<le> 10\<^sup>-\<^sup>6 * max(1, |kappa|)\<close>, \<open>p3 > 0\<close>, \<open>E4 \<ge> 0\<close> and
  \<open>P1 + P2 = P3 + P4\<close>. The function keeps a root \<open>p3 = 0\<close>, since its test is
  \<^verbatim>\<open>root >= 0.0\<close>, and it only warns of a residual that is too large. In both samples the
  particle 3 is massless and the quadratic of the function is the one of the
  specification. At sample G both roots are \<open>p3 = 0\<close>, and each adds \<open>14 / 2\<close> for the
  momenta \<open>P3 = 0\<close>, \<open>P4 = P1\<close>. At sample F the root \<open>p3 = 1\<close> has \<open>g(p3) = -8\<close> and adds
  \<open>2 / 2\<close> for its momenta.
\<close>

theorem zero_and_invalid_roots_enter_sum:
  "coeffC (solveQuadratic kinG) = specCoeffC kinG (masses 0 0 0 0) \<and>
   rootp3 (solveQuadratic kinG) = [Fin 0, Fin 0] \<and>
   \<not> Fin 0 > Fin 0 \<and>
   fourMomenta kinG (Fin 0) (Fin 0) =
     [\<lparr>fv0 = Fin 5, fv1 = Fin 0, fv2 = Fin 3, fv3 = Fin 4\<rparr>,
      \<lparr>fv0 = Fin 0, fv1 = Fin 0, fv2 = Fin 0, fv3 = Fin 0\<rparr>,
      \<lparr>fv0 = Fin 0, fv1 = Fin 0, fv2 = Fin 0, fv3 = Fin 0\<rparr>,
      \<lparr>fv0 = Fin 5, fv1 = Fin 0, fv2 = Fin 3, fv3 = Fin 4\<rparr>] \<and>
   elementSum (probeStub 3 4) 2 1 (fourMomenta kinG (Fin 0) (Fin 0)) = Fin 14 \<and>
   calculateIntegrand (probeStub 3 4) 2 1 0 0 (Fin 0) (Fin 0) (Fin 0) (Fin 1) (Fin 1)
     (masses 0 0 0 0) = (Fin (14 / ((2 * pi) ^ 5 * 8)), []) \<and>
   coeffC (solveQuadratic kinF) = specCoeffC kinF (masses 0 0 0 8) \<and>
   rootp3 (solveQuadratic kinF) = [Fin 1] \<and>
   funcG kinF (masses 0 0 0 8) (Fin 1) = Fin (- 8) \<and>
   \<not> specResidualOk (1 / 10 ^ 6) kinF (masses 0 0 0 8) (Fin 1) \<and>
   fourMomenta kinF (Fin 1) (Fin 1) =
     [\<lparr>fv0 = Fin 1, fv1 = Fin 0, fv2 = Fin 0, fv3 = Fin 1\<rparr>,
      \<lparr>fv0 = Fin 1, fv1 = Fin 1, fv2 = Fin 0, fv3 = Fin 0\<rparr>,
      \<lparr>fv0 = Fin 1, fv1 = Fin 0, fv2 = Fin 0, fv3 = Fin 1\<rparr>,
      \<lparr>fv0 = Fin 1, fv1 = Fin 1, fv2 = Fin 0, fv3 = Fin 0\<rparr>] \<and>
   elementSum (probeStub 0 1) 2 1 (fourMomenta kinF (Fin 1) (Fin 1)) = Fin 2 \<and>
   calculateIntegrand (probeStub 0 1) 2 1 0 0 (Fin 1) (Fin 0) (Fin 0) (Fin 0) (Fin 1)
     (masses 0 0 0 8) = (Fin (1 / ((2 * pi) ^ 5 * 8)), [InvalidRoot])"
proof -
  have cG: "specCoeffC kinG (masses 0 0 0 0) = Fin 0"
    by (simp add: specCoeffC_def kinG_value masses_def minus_dbl_def)
  have cF: "specCoeffC kinF (masses 0 0 0 8) = Fin 36"
    by (simp add: specCoeffC_def kinF_value masses_def minus_dbl_def)
  have g: "funcG kinF (masses 0 0 0 8) (Fin 1) = Fin (- 8)"
    by (simp add: funcG_def kinF_value masses_def Let_def minus_dbl_def)
  have r: "\<not> specResidualOk (1 / 10 ^ 6) kinF (masses 0 0 0 8) (Fin 1)"
    by (simp add: specResidualOk_def g) (simp add: kinF_value)
  have qG: "coeffC (solveQuadratic kinG) = specCoeffC kinG (masses 0 0 0 0)"
    by (simp add: cG quadG_value)
  have qF: "coeffC (solveQuadratic kinF) = specCoeffC kinF (masses 0 0 0 8)"
    by (simp add: cF quadF_value)
  have z: "\<not> Fin 0 > Fin 0"
    by simp
  from qG rootsG z momentaG elementsG probeIntegrandG qF rootsF g r momentaF elementsF
    probeIntegrandF
  show ?thesis
    by (intro conjI)
qed

section \<open>The quadratic and the prefactor\<close>

text \<open>
  C1: squaring \<open>g\<close> gives the quadratic with \<open>A = delta\<^sup>2 - eps\<^sup>2\<close>, \<open>B = 2 kappa delta\<close>
  and \<open>C = kappa\<^sup>2 - eps\<^sup>2 m3\<^sup>2\<close>, whose roots are the candidates. The function computes
  \<open>A\<close> and \<open>B\<close> so, but its \<open>C\<close> is \<open>kappa\<^sup>2\<close>: the term \<open>eps\<^sup>2 m3\<^sup>2\<close> is left out, while
  its own \<^verbatim>\<open>funcG\<close> has the mass. At sample B, where \<open>m3\<^sup>2 = 3\<close>, it computes \<open>C = 64\<close>
  instead of \<open>-128\<close>, and its root \<open>p3 = 1\<close> is neither a root of the squared equation
  nor a zero of \<open>g\<close>.
\<close>

theorem quadratic_constant_term_omits_mass:
  "coeffA (solveQuadratic K) = delta K * delta K - eps K * eps K \<and>
   coeffB (solveQuadratic K) = Fin 2 * kappa K * delta K \<and>
   coeffC (solveQuadratic K) = kappa K * kappa K \<and>
   coeffC (solveQuadratic kinB) = Fin 64 \<and>
   specCoeffC kinB (masses 0 0 3 11) = Fin (- 128) \<and>
   root1 (solveQuadratic kinB) = Fin 1 \<and>
   coeffA (solveQuadratic kinB) * Fin 1 * Fin 1 + coeffB (solveQuadratic kinB) * Fin 1
     + specCoeffC kinB (masses 0 0 3 11) = Fin (- 192) \<and>
   funcG kinB (masses 0 0 3 11) (Fin 1) = Fin (- 8)"
proof -
  have "coeffA (solveQuadratic K) = delta K * delta K - eps K * eps K \<and>
        coeffB (solveQuadratic K) = Fin 2 * kappa K * delta K \<and>
        coeffC (solveQuadratic K) = kappa K * kappa K"
    by (simp add: solveQuadratic_def Let_def split: prod.splits)
  moreover have "specCoeffC kinB (masses 0 0 3 11) = Fin (- 128)"
    by (simp add: specCoeffC_def kinB_value masses_def minus_dbl_def)
  moreover have "funcG kinB (masses 0 0 3 11) (Fin 1) = Fin (- 8)"
    by (simp add: funcG_def kinB_value masses_def Let_def minus_dbl_def sqrt_values)
  ultimately show ?thesis
    by (simp add: quadB_value)
qed

text \<open>
  C5: the prefactor that multiplies the sum of the collision elements is
  \<open>kappa(p2, m2\<^sup>2) * kappa(p3, m3\<^sup>2) * 1/|g'(p3)|\<close>. The function computes the two
  \<open>kappa\<close> factors into \<^verbatim>\<open>kinPrefac\<close> and never uses it: it only divides by \<open>|gDer|\<close>. At
  sample D the sum of the elements is 1 and the prefactor is \<open>2 * 1 * 1/4 = 1/2\<close>, and
  the root contributes \<open>1/4\<close>.
\<close>

theorem kinematic_prefactor_not_applied:
  "rootp3 (solveQuadratic kinD) = [Fin 1] \<and>
   elementSum (basisStub 0 1) 2 1 (fourMomenta kinD (Fin 1) (Fin 1)) = Fin 1 \<and>
   specPrefactor kinD (masses 0 0 0 0) (Fin 2) (Fin 1) = Fin (1 / 2) \<and>
   rootBody (basisStub 0 1) 2 1 (Fin 2) (masses 0 0 0 0) kinD (Fin 1) = ([], Some (Fin (1 / 4))) \<and>
   calculateIntegrand (basisStub 0 1) 2 1 0 0 (Fin 2) (Fin 0) (Fin 0) (Fin 0) (Fin 1)
     (masses 0 0 0 0) = (Fin (1 / 4 / ((2 * pi) ^ 5 * 8)), [])"
proof -
  have "elementSum (basisStub 0 1) 2 1 (fourMomenta kinD (Fin 1) (Fin 1)) = Fin 1"
    by (simp add: elementSum_def basisStub_def)
  moreover have "specPrefactor kinD (masses 0 0 0 0) (Fin 2) (Fin 1) = Fin (1 / 2)"
    by (simp add: specPrefactor_def specKappa_def specGPrime_def kinD_value masses_def
        minus_dbl_def)
  ultimately show ?thesis
    by (simp add: rootsD bodyD integrandD)
qed

section \<open>The integration runs\<close>

lemma evaluateRuns_unfold:
  "evaluateRuns vegasRun st0 self m n j k massSquare =
     vegasRun (integrandWrapper self m n j k massSquare)
       [Fin 0, Fin 0, Fin 0, Fin (- 1), Fin (- 1)]
       [maxIntegrationMomentum self, Fin 2 * Fin pi, Fin 2 * Fin pi, Fin 1, Fin 1] 100000
       (fst (vegasRun (integrandWrapper self m n j k massSquare)
          [Fin 0, Fin 0, Fin 0, Fin (- 1), Fin (- 1)]
          [maxIntegrationMomentum self, Fin 2 * Fin pi, Fin 2 * Fin pi, Fin 1, Fin 1] 20000 st0))"
  by (simp add: evaluateRuns_def Let_def split: prod.splits)

text \<open>
  C3, as the specification states it, fails with an integrator whose every run
  estimates mean 1 with error 1: \<^verbatim>\<open>evaluate\<close> makes the warmup run and one production run
  and returns, although after this first try none of the stopping conditions holds for
  the goals \<open>r = 10\<^sup>-\<^sup>2\<close>, \<open>a = 0\<close> and \<open>maxTries = 50\<close>. It returns a pair: there is no
  flag of convergence.
\<close>

theorem evaluate_stops_before_goal:
  "evaluateRuns (logCalls constVegas) ((), []) (basisStub 0 1) 2 1 1 1 (masses 0 0 0 0) =
     (((), [20000, 100000]), Fin 1, Fin 1) \<and>
   evaluate (logCalls constVegas) ((), []) (basisStub 0 1) 2 1 1 1 (masses 0 0 0 0) =
     (Fin 1, Fin 1) \<and>
   \<not> specStop (1 / 100) 0 50 (Fin 1) (Fin 1) 1"
  by (simp add: evaluate_def evaluateRuns_unfold logCalls_def constVegas_def specStop_def)

text \<open>
  C3 (amended): \<^verbatim>\<open>evaluate\<close> runs a warmup of \<open>0.2 * calls = 20000\<close> samples, then exactly
  one production run of \<open>calls = 100000\<close> samples from the state the warmup left, and
  returns the pair (mean, error) of this production run. It tests no error goal, makes
  no further try and reports no flag of convergence.
\<close>

theorem evaluate_runs_once:
  "evaluate vegasRun st0 self m n j k massSquare =
     (let G = integrandWrapper self m n j k massSquare;
          xl = [Fin 0, Fin 0, Fin 0, Fin (- 1), Fin (- 1)];
          xu = [maxIntegrationMomentum self, Fin 2 * Fin pi, Fin 2 * Fin pi, Fin 1, Fin 1];
          warmup = vegasRun G xl xu 20000 st0;
          production = vegasRun G xl xu 100000 (fst warmup)
      in snd production)"
  by (simp add: evaluate_def evaluateRuns_unfold Let_def split: prod.splits)

theorem evaluate_runs_once_witness:
  "evaluate (logCalls constVegas) ((), []) (basisStub 0 1) 2 1 1 1 (masses 0 0 0 0) =
     snd (logCalls constVegas (integrandWrapper (basisStub 0 1) 2 1 1 1 (masses 0 0 0 0))
            [Fin 0, Fin 0, Fin 0, Fin (- 1), Fin (- 1)]
            [Fin 20, Fin 2 * Fin pi, Fin 2 * Fin pi, Fin 1, Fin 1] 100000 ((), [20000]))"
  using evaluate_runs_once[of "logCalls constVegas" "((), [])" "basisStub 0 1" 2 1 1 1
      "masses 0 0 0 0"]
  by (simp add: Let_def logCalls_def constVegas_def basisStub_def)

text \<open>
  C7, as the specification states it, fails: \<^verbatim>\<open>evaluate\<close> takes no options, and its
  production run asks for 100000 samples, not 50000.
\<close>

theorem production_calls_not_50000:
  "last (snd (fst (evaluateRuns (logCalls constVegas) ((), []) (basisStub 0 1) 2 1 1 1
      (masses 0 0 0 0)))) = 100000 \<and>
   last (snd (fst (evaluateRuns (logCalls constVegas) ((), []) (basisStub 0 1) 2 1 1 1
      (masses 0 0 0 0)))) \<noteq> 50000"
  by (simp add: evaluateRuns_unfold logCalls_def constVegas_def)

text \<open>
  C7 (amended): \<^verbatim>\<open>evaluate\<close> takes no integration options; whatever the integrator, its
  production run asks for the fixed number \<open>calls = 100000\<close> of samples, after a warmup
  of 20000.
\<close>

theorem production_calls_fixed:
  "snd (fst (evaluateRuns (logCalls vegasRun) (st0, cs) self m n j k massSquare)) =
     cs @ [20000, 100000]"
  by (simp add: evaluateRuns_unfold logCalls_def split: prod.splits)

theorem production_calls_fixed_witness:
  "snd (fst (evaluateRuns (logCalls constVegas) ((), []) (basisStub 0 1) 2 1 1 1
      (masses 0 0 0 0))) = [20000, 100000]"
  using production_calls_fixed[of constVegas "()" "[]" "basisStub 0 1" 2 1 1 1 "masses 0 0 0 0"]
  by simp

section \<open>The tensor\<close>












text \<open>
  C8: \<^verbatim>\<open>setMatrixElementFile\<close> returns false when the file at the path is absent and
  true otherwise; it does not fail.
\<close>

theorem setMatrixElementFile_returns_existence:
  "map_sum id fst (setMatrixElementFile fileExists t filePath) = Inr (fileExists filePath)"
  by (simp add: setMatrixElementFile_def Let_def)

theorem setMatrixElementFile_returns_existence_witness:
  "map_sum id fst (setMatrixElementFile oneFile topTensor ''MatrixElements.txt'') = Inr True \<and>
   map_sum id fst (setMatrixElementFile oneFile topTensor ''missing.txt'') = Inr False"
  using setMatrixElementFile_returns_existence[of oneFile topTensor "''MatrixElements.txt''"]
    setMatrixElementFile_returns_existence[of oneFile topTensor "''missing.txt''"]
  by (simp add: oneFile_def)

end
